theory Spec2Isabelle
  imports Complex_Main "HOL-Library.AList"
begin

section \<open>JavaScript values\<close>

text \<open>
  The handlers of \<^verbatim>\<open>src/api/server.js\<close> work on values produced by \<^verbatim>\<open>JSON.parse\<close> and by
  \<^verbatim>\<open>parseCSV\<close>. A number is an IEEE double: the two zeros, the two infinities and NaN are
  kept apart, a finite non-zero double is named by its exact rational value. An object is
  the list of its own enumerable properties in the order \<^verbatim>\<open>Object.keys\<close> lists them; a
  property is added with \<^verbatim>\<open>AList.update\<close>, which overwrites in place or appends. Members
  inherited from \<^verbatim>\<open>Object.prototype\<close> (among them the \<^verbatim>\<open>__proto__\<close> accessor) are outside
  the model: a property name denotes an own property. A \<^typ>\<open>char\<close> is a code unit below 256.
\<close>

datatype jsnum = NaN | PosInf | NegInf | NegZero | Fin rat

datatype jsval =
    JUndefined
  | JNull
  | JBool bool
  | JNum jsnum
  | JStr string
  | JArr "jsval list"
  | JObj "(string \<times> jsval) list"

datatype js_error = SyntaxError string | TypeError string | Error string

fun message_of :: "js_error \<Rightarrow> string" where
  "message_of (SyntaxError m) = m"
| "message_of (TypeError m) = m"
| "message_of (Error m) = m"

text \<open>Truthiness, as \<^verbatim>\<open>!x\<close> and \<^verbatim>\<open>x || y\<close> test it.\<close>

fun truthy :: "jsval \<Rightarrow> bool" where
  "truthy JUndefined = False"
| "truthy JNull = False"
| "truthy (JBool b) = b"
| "truthy (JNum n) = (n \<noteq> NaN \<and> n \<noteq> Fin 0 \<and> n \<noteq> NegZero)"
| "truthy (JStr s) = (s \<noteq> [])"
| "truthy (JArr xs) = True"
| "truthy (JObj kvs) = True"


subsection \<open>Strings\<close>

definition isWhiteSpace :: "char \<Rightarrow> bool" where
  "isWhiteSpace c =
     (c = CHR 0x09 \<or> c = CHR 0x0A \<or> c = CHR 0x0B \<or> c = CHR 0x0C \<or> c = CHR 0x0D \<or>
      c = CHR 0x20 \<or> c = CHR 0xA0)"

text \<open>\<^verbatim>\<open>String.prototype.trim\<close>\<close>

definition trim :: "string \<Rightarrow> string" where
  "trim s = rev (dropWhile isWhiteSpace (rev (dropWhile isWhiteSpace s)))"

text \<open>\<^verbatim>\<open>String.prototype.split\<close> with a separator of one character: never the empty list.\<close>

fun split :: "char \<Rightarrow> string \<Rightarrow> string list" where
  "split sep [] = [] # []"
| "split sep (c # cs) =
     (if c = sep then [] # split sep cs
      else (case split sep cs of [] \<Rightarrow> [c] # [] | w # ws \<Rightarrow> (c # w) # ws))"

text \<open>\<^verbatim>\<open>Array.prototype.join\<close>\<close>

fun join :: "string \<Rightarrow> string list \<Rightarrow> string" where
  "join sep [] = []"
| "join sep [x] = x"
| "join sep (x # y # ys) = x @ sep @ join sep (y # ys)"

definition quote :: "string \<Rightarrow> string" where
  "quote s = CHR 0x22 # s @ [CHR 0x22]"

text \<open>The decimal digits of an array index or a loop counter, as a template literal prints them.\<close>

definition digitChar :: "nat \<Rightarrow> char" where
  "digitChar d = ''0123456789'' ! d"

function showNat :: "nat \<Rightarrow> string" where
  "showNat n = (if n < 10 then [digitChar n] else showNat (n div 10) @ [digitChar (n mod 10)])"
  by pat_completeness auto
termination
  by (relation "measure id") auto

declare showNat.simps [simp del]

subsection \<open>The built-ins taken as parameters\<close>

text \<open>
  \<^verbatim>\<open>JSON.parse\<close>, the printing of a double, the Unicode case mappings and the schema check of
  the validation library are not code of this repository. Every function below takes them
  in a record; the theorems hold for every choice of them.
\<close>

datatype source_type = Csv | Json
datatype repository = Users | Products | Orders
datatype transform = TNone | Uppercase | Lowercase | Trim | Number

record field_mapping =
  sourceField :: string
  targetField :: string
  transform :: "transform option"

record mapping_options =
  skipEmptyFields :: bool
  validateRequired :: bool

record mapping_config =
  name :: string
  sourceType :: source_type
  targetRepository :: repository
  idField :: string
  fieldMappings :: "field_mapping list"
  options :: mapping_options

record zod_issue =
  issue_path :: "string list"
  issue_message :: string

record runtime =
  JSON_parse :: "string \<Rightarrow> js_error + jsval"
  numberToString :: "jsnum \<Rightarrow> string"
  toUpperCase :: "string \<Rightarrow> string"
  toLowerCase :: "string \<Rightarrow> string"
  safeParse :: "jsval \<Rightarrow> zod_issue list + mapping_config"

subsection \<open>\<^verbatim>\<open>String(value)\<close>\<close>

fun jsString :: "runtime \<Rightarrow> jsval \<Rightarrow> string" where
  "jsString rt JUndefined = ''undefined''"
| "jsString rt JNull = ''null''"
| "jsString rt (JBool b) = (if b then ''true'' else ''false'')"
| "jsString rt (JNum n) = numberToString rt n"
| "jsString rt (JStr s) = s"
| "jsString rt (JArr xs) =
     join '','' (map (\<lambda>x. if x = JUndefined \<or> x = JNull then [] else jsString rt x) xs)"
| "jsString rt (JObj kvs) = ''[object Object]''"

subsection \<open>\<^verbatim>\<open>Number(value)\<close>\<close>

text \<open>
  The grammar \<^verbatim>\<open>StringNumericLiteral\<close> of the language standard: optional white space around
  nothing (the value is +0), a signed decimal literal with optional fraction and exponent,
  \<^verbatim>\<open>Infinity\<close>, or an unsigned binary, octal or hexadecimal integer. Anything else is NaN.
  The value of a literal is kept exact; the rounding to the nearest double is not applied,
  and no theorem below depends on the magnitude of a converted number.
\<close>

definition isDigit :: "char \<Rightarrow> bool" where
  "isDigit c = (c \<in> set ''0123456789'')"

definition digitValue :: "char \<Rightarrow> nat" where
  "digitValue c =
     (if c \<in> set ''0123456789'' then of_char c - 48
      else if c \<in> set ''abcdef'' then of_char c - 87
      else of_char c - 55)"

definition digitsValue :: "nat \<Rightarrow> string \<Rightarrow> nat" where
  "digitsValue base ds = foldl (\<lambda>a c. a * base + digitValue c) 0 ds"

definition scale10 :: "rat \<Rightarrow> int \<Rightarrow> rat" where
  "scale10 q e = (if 0 \<le> e then q * 10 ^ nat e else q / 10 ^ nat (- e))"

text \<open>\<^verbatim>\<open>SignedInteger\<close> after the exponent indicator.\<close>

definition signedInteger :: "string \<Rightarrow> int option" where
  "signedInteger s =
     (let (neg, ds) = (case s of
                         c # r \<Rightarrow> if c = CHR ''-'' then (True, r)
                                  else if c = CHR ''+'' then (False, r) else (False, s)
                       | [] \<Rightarrow> (False, s))
      in if ds \<noteq> [] \<and> list_all isDigit ds
         then Some (if neg then - int (digitsValue 10 ds) else int (digitsValue 10 ds))
         else None)"

text \<open>\<^verbatim>\<open>ExponentPart\<close>, optional: the rest of the literal after the digits.\<close>

definition exponentPart :: "string \<Rightarrow> int option" where
  "exponentPart s =
     (case s of
        [] \<Rightarrow> Some 0
      | c # r \<Rightarrow> if c = CHR ''e'' \<or> c = CHR ''E'' then signedInteger r else None)"

text \<open>\<^verbatim>\<open>StrUnsignedDecimalLiteral\<close>\<close>

definition unsignedDecimal :: "string \<Rightarrow> jsnum" where
  "unsignedDecimal s =
     (if s = ''Infinity'' then PosInf
      else
        let ip = takeWhile isDigit s;
            r1 = dropWhile isDigit s;
            hasDot = (r1 \<noteq> [] \<and> hd r1 = CHR ''.'');
            fp = (if hasDot then takeWhile isDigit (tl r1) else []);
            r2 = (if hasDot then dropWhile isDigit (tl r1) else r1)
        in if ip = [] \<and> fp = [] then NaN
           else (case exponentPart r2 of
                   None \<Rightarrow> NaN
                 | Some e \<Rightarrow>
                     Fin (scale10 (of_nat (digitsValue 10 (ip @ fp))) (e - int (length fp)))))"

text \<open>\<^verbatim>\<open>NonDecimalIntegerLiteral\<close>: no sign, at least one digit of the base.\<close>

definition nonDecimal :: "string \<Rightarrow> jsnum option" where
  "nonDecimal s =
     (case s of
        z # p # ds \<Rightarrow>
          if z = CHR ''0'' \<and> ds \<noteq> [] then
            if (p = CHR ''x'' \<or> p = CHR ''X'') \<and> list_all (\<lambda>c. c \<in> set ''0123456789abcdefABCDEF'') ds
              then Some (Fin (of_nat (digitsValue 16 ds)))
            else if (p = CHR ''o'' \<or> p = CHR ''O'') \<and> list_all (\<lambda>c. c \<in> set ''01234567'') ds
              then Some (Fin (of_nat (digitsValue 8 ds)))
            else if (p = CHR ''b'' \<or> p = CHR ''B'') \<and> list_all (\<lambda>c. c \<in> set ''01'') ds
              then Some (Fin (of_nat (digitsValue 2 ds)))
            else None
          else None
      | _ \<Rightarrow> None)"

fun negate :: "jsnum \<Rightarrow> jsnum" where
  "negate NaN = NaN"
| "negate PosInf = NegInf"
| "negate NegInf = PosInf"
| "negate NegZero = Fin 0"
| "negate (Fin q) = (if q = 0 then NegZero else Fin (- q))"

definition StringToNumber :: "string \<Rightarrow> jsnum" where
  "StringToNumber s =
     (let t = trim s in
      if t = [] then Fin 0
      else (case nonDecimal t of
              Some n \<Rightarrow> n
            | None \<Rightarrow>
                if hd t = CHR ''+'' then unsignedDecimal (tl t)
                else if hd t = CHR ''-'' then negate (unsignedDecimal (tl t))
                else unsignedDecimal t))"

fun jsNumber :: "runtime \<Rightarrow> jsval \<Rightarrow> jsnum" where
  "jsNumber rt JUndefined = NaN"
| "jsNumber rt JNull = Fin 0"
| "jsNumber rt (JBool b) = (if b then Fin 1 else Fin 0)"
| "jsNumber rt (JNum n) = n"
| "jsNumber rt (JStr s) = StringToNumber s"
| "jsNumber rt (JArr xs) = StringToNumber (jsString rt (JArr xs))"
| "jsNumber rt (JObj kvs) = StringToNumber ''[object Object]''"

definition isNaN :: "jsnum \<Rightarrow> bool" where
  "isNaN n = (n = NaN)"


subsection \<open>Property access\<close>

text \<open>
  \<^verbatim>\<open>value[key]\<close>: a TypeError on \<^verbatim>\<open>null\<close> and \<^verbatim>\<open>undefined\<close>; an own property of an object;
  an element or the length of an array or a string; \<^verbatim>\<open>undefined\<close> otherwise.
\<close>

definition indexOfKey :: "nat \<Rightarrow> string \<Rightarrow> nat option" where
  "indexOfKey n key = find (\<lambda>i. showNat i = key) [0..<n]"

fun getMember :: "jsval \<Rightarrow> string \<Rightarrow> jsval" where
  "getMember (JObj kvs) key = (case map_of kvs key of Some v \<Rightarrow> v | None \<Rightarrow> JUndefined)"
| "getMember (JArr xs) key =
     (if key = ''length'' then JNum (Fin (of_nat (length xs)))
      else (case indexOfKey (length xs) key of Some i \<Rightarrow> xs ! i | None \<Rightarrow> JUndefined))"
| "getMember (JStr s) key =
     (if key = ''length'' then JNum (Fin (of_nat (length s)))
      else (case indexOfKey (length s) key of Some i \<Rightarrow> JStr [s ! i] | None \<Rightarrow> JUndefined))"
| "getMember v key = JUndefined"

definition getProp :: "jsval \<Rightarrow> string \<Rightarrow> js_error + jsval" where
  "getProp v key =
     (if v = JUndefined \<or> v = JNull
      then Inl (TypeError ''Cannot read properties of undefined or null'')
      else Inr (getMember v key))"

text \<open>\<^verbatim>\<open>Object.keys(value)\<close>\<close>

fun Object_keys :: "jsval \<Rightarrow> js_error + string list" where
  "Object_keys JUndefined = Inl (TypeError ''Cannot convert undefined or null to object'')"
| "Object_keys JNull = Inl (TypeError ''Cannot convert undefined or null to object'')"
| "Object_keys (JObj kvs) = Inr (map fst kvs)"
| "Object_keys (JArr xs) = Inr (map showNat [0..<length xs])"
| "Object_keys (JStr s) = Inr (map showNat [0..<length s])"
| "Object_keys v = Inr []"

section \<open>Schema definitions\<close>

record repo_schema =
  required :: "string list"
  optional :: "string list"

fun REPOSITORY_SCHEMA :: "repository \<Rightarrow> repo_schema" where
  "REPOSITORY_SCHEMA Users =
     \<lparr>required = [''id'', ''email'', ''name''], optional = [''phone'', ''address'', ''role'']\<rparr>"
| "REPOSITORY_SCHEMA Products =
     \<lparr>required = [''sku'', ''name'', ''price''],
      optional = [''description'', ''category'', ''stock'']\<rparr>"
| "REPOSITORY_SCHEMA Orders =
     \<lparr>required = [''orderId'', ''customerId'', ''total''],
      optional = [''status'', ''createdAt'', ''items'']\<rparr>"

text \<open>The single target schema of the order variant of the server.\<close>

definition TARGET_ORDER_SCHEMA :: repo_schema where
  "TARGET_ORDER_SCHEMA =
     \<lparr>required = [''orderId''],
      optional = [''customerId'', ''customerEmail'', ''customerName'', ''totalAmount'',
                  ''currency'', ''status'', ''itemCount'', ''shippingAddress'', ''shippingCity'',
                  ''shippingCountry'', ''createdAt'', ''updatedAt'', ''notes'']\<rparr>"

fun sourceTypeName :: "source_type \<Rightarrow> string" where
  "sourceTypeName Csv = ''csv''"
| "sourceTypeName Json = ''json''"

section \<open>Utility functions\<close>

text \<open>\<^verbatim>\<open>parseCSV\<close>: \<^verbatim>\<open>record[header] = values[idx] || ''\<close> for every header, in order.\<close>

definition csvRecord :: "string list \<Rightarrow> string list \<Rightarrow> jsval" where
  "csvRecord headers values =
     JObj (foldl (\<lambda>record idx.
                    AList.update (headers ! idx)
                      (JStr (if idx < length values then values ! idx else [])) record)
                 [] [0..<length headers])"

definition parseCSV :: "string \<Rightarrow> jsval list" where
  "parseCSV csvString =
     (let lines = split CHR 0x0A (trim csvString) in
      if length lines < 2 then []
      else
        let headers = map trim (split CHR '','' (hd lines)) in
        map (\<lambda>line. csvRecord headers (map trim (split CHR '','' line))) (tl lines))"

text \<open>\<^verbatim>\<open>parseJSON\<close>: the loop over \<^verbatim>\<open>Object.keys(parsed)\<close>, then the wrapping of a single object.\<close>

fun scanKeys :: "jsval \<Rightarrow> string list \<Rightarrow> js_error + jsval list" where
  "scanKeys parsed [] = Inr [parsed]"
| "scanKeys parsed (key # keys) =
     (case getProp parsed key of
        Inl e \<Rightarrow> Inl e
      | Inr (JArr xs) \<Rightarrow> Inr xs
      | Inr v \<Rightarrow> scanKeys parsed keys)"

definition parseJSON :: "runtime \<Rightarrow> string \<Rightarrow> js_error + jsval list" where
  "parseJSON rt jsonString =
     (case JSON_parse rt jsonString of
        Inl e \<Rightarrow> Inl e
      | Inr (JArr xs) \<Rightarrow> Inr xs
      | Inr parsed \<Rightarrow>
          (case Object_keys parsed of
             Inl e \<Rightarrow> Inl e
           | Inr keys \<Rightarrow> scanKeys parsed keys))"

definition parseSourceFile :: "runtime \<Rightarrow> string \<Rightarrow> string \<Rightarrow> js_error + jsval list" where
  "parseSourceFile rt sourceFile sourceTypeStr =
     (if sourceTypeStr = ''csv'' then Inr (parseCSV sourceFile)
      else if sourceTypeStr = ''json'' then parseJSON rt sourceFile
      else Inl (Error (''Unsupported source type: '' @ sourceTypeStr)))"


section \<open>POST /execute/config\<close>

record record_meta =
  sourceIndex :: nat
  importedAt :: string
  success :: bool
  errors :: "string list option"

text \<open>The fields \<^verbatim>\<open>id\<close>, \<^verbatim>\<open>type\<close>, \<^verbatim>\<open>data\<close> and \<^verbatim>\<open>_meta\<close> of a standardized record.\<close>

record standardized_record =
  rec_id :: string
  rec_type :: repository
  rec_data :: "(string \<times> jsval) list"
  meta :: record_meta

record validation_error =
  path :: string
  message :: string

record import_summary =
  totalRecords :: nat
  successfulImports :: nat
  failedImports :: nat
  summaryTargetRepository :: repository
  summaryImportedAt :: string

text \<open>The JSON body of a response; a key the handler leaves out is \<open>None\<close>.\<close>

record response_body =
  valid :: bool
  body_message :: "string option"
  body_errors :: "validation_error list option"
  summary :: "import_summary option"
  records :: "standardized_record list option"

datatype response = JsonBody response_body | Status nat string

record request_body =
  config :: jsval
  sourceFile :: jsval

subsection \<open>Required target fields\<close>

definition mappedTargetFields :: "mapping_config \<Rightarrow> string list" where
  "mappedTargetFields validConfig = map targetField (fieldMappings validConfig)"

definition requiredWithoutId :: "mapping_config \<Rightarrow> string list" where
  "requiredWithoutId validConfig =
     filter (\<lambda>f. f \<noteq> ''id'') (required (REPOSITORY_SCHEMA (targetRepository validConfig)))"

definition missingRequired :: "mapping_config \<Rightarrow> string list" where
  "missingRequired validConfig =
     filter (\<lambda>f. f \<notin> set (mappedTargetFields validConfig)) (requiredWithoutId validConfig)"

definition missingFieldError :: "string \<Rightarrow> validation_error" where
  "missingFieldError field =
     \<lparr>path = ''fieldMappings'', message = ''Missing required target field: '' @ quote field\<rparr>"

definition invalidBody :: "validation_error list \<Rightarrow> response_body" where
  "invalidBody errs =
     \<lparr>valid = False, body_message = None, body_errors = Some errs, summary = None,
      records = None\<rparr>"

text \<open>
  The same check in the order variant of the server: the required fields of
  \<^verbatim>\<open>TARGET_ORDER_SCHEMA\<close> without \<^verbatim>\<open>orderId\<close>, against the set of mapped target fields. The
  result is the body of the early return, or \<open>None\<close> when the handler goes on.
\<close>

definition orderMissingRequired :: "field_mapping list \<Rightarrow> string list" where
  "orderMissingRequired mappings =
     filter (\<lambda>f. f \<notin> set (map targetField mappings))
       (filter (\<lambda>f. f \<noteq> ''orderId'') (required TARGET_ORDER_SCHEMA))"

definition orderRequiredCheck :: "field_mapping list \<Rightarrow> mapping_options \<Rightarrow> response_body option" where
  "orderRequiredCheck mappings opts =
     (if validateRequired opts \<and> length (orderMissingRequired mappings) > 0
      then Some (invalidBody (map missingFieldError (orderMissingRequired mappings)))
      else None)"

subsection \<open>One field mapping\<close>

text \<open>The \<^verbatim>\<open>switch (mapping.transform)\<close>: the new value and the errors it pushes.\<close>

definition applyTransform :: "runtime \<Rightarrow> field_mapping \<Rightarrow> jsval \<Rightarrow> jsval \<times> string list" where
  "applyTransform rt mapping v =
     (case transform mapping of
        Some Uppercase \<Rightarrow> (JStr (toUpperCase rt (jsString rt v)), [])
      | Some Lowercase \<Rightarrow> (JStr (toLowerCase rt (jsString rt v)), [])
      | Some Trim \<Rightarrow> (JStr (trim (jsString rt v)), [])
      | Some Number \<Rightarrow>
          (let numValue = jsNumber rt v in
           if isNaN numValue
           then (JNum (Fin 0),
                 [''Field '' @ quote (sourceField mapping) @ '' could not be converted to number''])
           else (JNum numValue, []))
      | _ \<Rightarrow> (v, []))"

text \<open>
  The body of \<^verbatim>\<open>for (const mapping of validConfig.fieldMappings)\<close>, on the pair of \<^verbatim>\<open>data\<close>
  and \<^verbatim>\<open>recordErrors\<close>.
\<close>

definition applyMapping ::
  "runtime \<Rightarrow> mapping_config \<Rightarrow> jsval \<Rightarrow> (string \<times> jsval) list \<times> string list \<Rightarrow> field_mapping
     \<Rightarrow> js_error + (string \<times> jsval) list \<times> string list" where
  "applyMapping rt validConfig sourceRecord st mapping =
     (case getProp sourceRecord (sourceField mapping) of
        Inl e \<Rightarrow> Inl e
      | Inr v \<Rightarrow>
          if (v = JUndefined \<or> v = JNull \<or> v = JStr []) \<and> skipEmptyFields (options validConfig)
          then Inr st
          else
            let (v', errs) = (if v \<noteq> JUndefined \<and> v \<noteq> JNull then applyTransform rt mapping v
                              else (v, []))
            in Inr (AList.update (targetField mapping) v' (fst st), snd st @ errs))"

fun applyMappings ::
  "runtime \<Rightarrow> mapping_config \<Rightarrow> jsval \<Rightarrow> (string \<times> jsval) list \<times> string list
     \<Rightarrow> field_mapping list \<Rightarrow> js_error + (string \<times> jsval) list \<times> string list" where
  "applyMappings rt validConfig sourceRecord st [] = Inr st"
| "applyMappings rt validConfig sourceRecord st (mapping # mappings) =
     (case applyMapping rt validConfig sourceRecord st mapping of
        Inl e \<Rightarrow> Inl e
      | Inr st' \<Rightarrow> applyMappings rt validConfig sourceRecord st' mappings)"

subsection \<open>One source record\<close>

definition missingIdError :: "mapping_config \<Rightarrow> string" where
  "missingIdError validConfig = ''Missing ID field '' @ quote (idField validConfig)"

definition importRecord ::
  "runtime \<Rightarrow> mapping_config \<Rightarrow> string \<Rightarrow> nat \<Rightarrow> jsval \<Rightarrow> js_error + standardized_record" where
  "importRecord rt validConfig stamp index sourceRecord =
     (case getProp sourceRecord (idField validConfig) of
        Inl e \<Rightarrow> Inl e
      | Inr recordId \<Rightarrow>
          let recordErrors0 =
                (if recordId = JUndefined \<or> recordId = JNull \<or> recordId = JStr []
                 then [missingIdError validConfig] else [])
          in (case applyMappings rt validConfig sourceRecord ([], recordErrors0)
                     (fieldMappings validConfig) of
                Inl e \<Rightarrow> Inl e
              | Inr (data, recordErrors) \<Rightarrow>
                  Inr \<lparr>rec_id = jsString rt (if truthy recordId then recordId
                                              else JStr (''unknown-'' @ showNat index)),
                       rec_type = targetRepository validConfig,
                       rec_data = data,
                       meta = \<lparr>sourceIndex = index,
                               importedAt = stamp,
                               success = (length recordErrors = 0),
                               errors = (if length recordErrors > 0 then Some recordErrors
                                         else None)\<rparr>\<rparr>))"

text \<open>The loop over \<^verbatim>\<open>sourceRecords\<close>; an exception ends it.\<close>

fun importRecords ::
  "runtime \<Rightarrow> mapping_config \<Rightarrow> string \<Rightarrow> nat \<Rightarrow> jsval list
     \<Rightarrow> js_error + standardized_record list" where
  "importRecords rt validConfig stamp index [] = Inr []"
| "importRecords rt validConfig stamp index (sourceRecord # rest) =
     (case importRecord rt validConfig stamp index sourceRecord of
        Inl e \<Rightarrow> Inl e
      | Inr standardizedRecord \<Rightarrow>
          (case importRecords rt validConfig stamp (Suc index) rest of
             Inl e \<Rightarrow> Inl e
           | Inr rs \<Rightarrow> Inr (standardizedRecord # rs)))"

subsection \<open>The handler\<close>

text \<open>
  The handler after the check of the required fields: parsing, the empty source, the import
  and the summary. \<open>stamp\<close> is the clock reading \<^verbatim>\<open>new Date().toISOString()\<close> that the handler
  names \<^verbatim>\<open>importedAt\<close>. The list \<^verbatim>\<open>errors\<close> that the loop fills is never read and is left out.
\<close>

definition runImport :: "runtime \<Rightarrow> string \<Rightarrow> mapping_config \<Rightarrow> string \<Rightarrow> response" where
  "runImport rt stamp validConfig sourceFileText =
     (case parseSourceFile rt sourceFileText (sourceTypeName (sourceType validConfig)) of
        Inl parseError \<Rightarrow>
          JsonBody (invalidBody
                      [\<lparr>path = ''sourceFile'',
                        message = ''Failed to parse: '' @ message_of parseError\<rparr>])
      | Inr sourceRecords \<Rightarrow>
          if length sourceRecords = 0
          then JsonBody \<lparr>valid = True,
                         body_message = Some ''Source file parsed but contains no records.'',
                         body_errors = None, summary = None, records = Some []\<rparr>
          else
            (case importRecords rt validConfig stamp 0 sourceRecords of
               Inl e \<Rightarrow> Status 500 ''Failed to execute config''
             | Inr rs \<Rightarrow>
                 let successCount = length (filter (\<lambda>r. success (meta r)) rs) in
                 JsonBody \<lparr>valid = True, body_message = None, body_errors = None,
                           summary = Some \<lparr>totalRecords = length sourceRecords,
                                           successfulImports = successCount,
                                           failedImports = length sourceRecords - successCount,
                                           summaryTargetRepository = targetRepository validConfig,
                                           summaryImportedAt = stamp\<rparr>,
                           records = Some rs\<rparr>))"

text \<open>The handler from the validated configuration on.\<close>

definition executeValid :: "runtime \<Rightarrow> string \<Rightarrow> mapping_config \<Rightarrow> string \<Rightarrow> response" where
  "executeValid rt stamp validConfig sourceFileText =
     (if validateRequired (options validConfig) \<and> length (missingRequired validConfig) > 0
      then JsonBody (invalidBody (map missingFieldError (missingRequired validConfig)))
      else runImport rt stamp validConfig sourceFileText)"

fun isString :: "jsval \<Rightarrow> bool" where
  "isString (JStr s) = True"
| "isString v = False"

fun stringOf :: "jsval \<Rightarrow> string" where
  "stringOf (JStr s) = s"
| "stringOf v = []"

definition executeConfig :: "runtime \<Rightarrow> string \<Rightarrow> request_body \<Rightarrow> response" where
  "executeConfig rt stamp body =
     (if \<not> truthy (config body) then Status 400 ''config is required''
      else if \<not> truthy (sourceFile body) \<or> \<not> isString (sourceFile body)
        then Status 400 ''sourceFile is required and must be a string''
      else
        (case safeParse rt (config body) of
           Inl issues \<Rightarrow>
             JsonBody (invalidBody
                     (map (\<lambda>issue. \<lparr>path = join ''.'' (issue_path issue),
                                     message = issue_message issue\<rparr>) issues))
         | Inr validConfig \<Rightarrow>
             executeValid rt stamp validConfig (stringOf (sourceFile body))))"


section \<open>Notions used to state the properties\<close>

text \<open>\<^verbatim>\<open>Array.isArray\<close>\<close>

fun isArray :: "jsval \<Rightarrow> bool" where
  "isArray (JArr xs) = True"
| "isArray v = False"









text \<open>A response with every \<^verbatim>\<open>importedAt\<close> blanked.\<close>

definition eraseRecordStamp :: "standardized_record \<Rightarrow> standardized_record" where
  "eraseRecordStamp r = r\<lparr>meta := (meta r)\<lparr>importedAt := []\<rparr>\<rparr>"

fun eraseImportedAt :: "response \<Rightarrow> response" where
  "eraseImportedAt (JsonBody b) =
     JsonBody (b\<lparr>summary := map_option (\<lambda>s. s\<lparr>summaryImportedAt := []\<rparr>) (summary b),
                 records := map_option (map eraseRecordStamp) (records b)\<rparr>)"
| "eraseImportedAt (Status code msg) = Status code msg"

fun summaryOf :: "response \<Rightarrow> import_summary option" where
  "summaryOf (JsonBody b) = summary b"
| "summaryOf (Status code msg) = None"



section \<open>Concrete inputs for the closed examples\<close>

text \<open>
  A product import with two entries for the target field \<^verbatim>\<open>name\<close>, and a runtime that
  answers on the inputs of the examples: its parser knows three texts, its schema check
  accepts the one configuration object, and the printing of numbers and the case mappings
  are not exercised.
\<close>

definition skuMapping :: field_mapping where
  "skuMapping = \<lparr>sourceField = ''code'', targetField = ''sku'', transform = None\<rparr>"

definition titleMapping :: field_mapping where
  "titleMapping = \<lparr>sourceField = ''title'', targetField = ''name'', transform = Some Trim\<rparr>"

definition costMapping :: field_mapping where
  "costMapping = \<lparr>sourceField = ''cost'', targetField = ''price'', transform = Some Number\<rparr>"

definition aliasMapping :: field_mapping where
  "aliasMapping = \<lparr>sourceField = ''alias'', targetField = ''name'', transform = Some TNone\<rparr>"

definition productConfig :: mapping_config where
  "productConfig =
     \<lparr>name = ''product-import'', sourceType = Csv, targetRepository = Products,
      idField = ''code'',
      fieldMappings = [skuMapping, titleMapping, costMapping, aliasMapping],
      options = \<lparr>skipEmptyFields = True, validateRequired = True\<rparr>\<rparr>"


definition incompleteConfig :: mapping_config where
  "incompleteConfig = productConfig\<lparr>fieldMappings := [titleMapping]\<rparr>"


definition productConfigJson :: jsval where
  "productConfigJson =
     JObj [(''name'', JStr ''product-import''), (''sourceType'', JStr ''csv''),
           (''targetRepository'', JStr ''products''), (''idField'', JStr ''code''),
           (''fieldMappings'',
              JArr [JObj [(''sourceField'', JStr ''code''), (''targetField'', JStr ''sku'')],
                    JObj [(''sourceField'', JStr ''title''), (''targetField'', JStr ''name''),
                          (''transform'', JStr ''trim'')],
                    JObj [(''sourceField'', JStr ''cost''), (''targetField'', JStr ''price''),
                          (''transform'', JStr ''number'')],
                    JObj [(''sourceField'', JStr ''alias''), (''targetField'', JStr ''name''),
                          (''transform'', JStr ''none'')]]),
           (''options'', JObj [(''skipEmptyFields'', JBool True),
                               (''validateRequired'', JBool True)])]"

definition wrapperText :: string where
  "wrapperText =
     ''{'' @ quote ''meta'' @ '':{}, '' @ quote ''items'' @ '':[{'' @ quote ''id'' @ '':1}]}''"

definition wrapperObject :: jsval where
  "wrapperObject = JObj [(''meta'', JObj []), (''items'', JArr [JObj [(''id'', JNum (Fin 1))]])]"

definition singleText :: string where
  "singleText = ''{'' @ quote ''id'' @ '':7}''"

definition exampleParse :: "string \<Rightarrow> js_error + jsval" where
  "exampleParse text =
     (if text = wrapperText then Inr wrapperObject
      else if text = singleText then Inr (JObj [(''id'', JNum (Fin 7))])
      else if text = ''[]'' then Inr (JArr [])
      else Inl (SyntaxError ''Unexpected token''))"

definition exampleRuntime :: runtime where
  "exampleRuntime =
     \<lparr>JSON_parse = exampleParse,
      numberToString = (\<lambda>n. []),
      toUpperCase = (\<lambda>s. s),
      toLowerCase = (\<lambda>s. s),
      safeParse = (\<lambda>v. if v = productConfigJson then Inr productConfig
                         else Inl [\<lparr>issue_path = [''name''], issue_message = ''Required''\<rparr>])\<rparr>"

definition exampleStamp :: string where
  "exampleStamp = ''2026-01-28T12:00:00.000Z''"

definition laterStamp :: string where
  "laterStamp = ''2026-01-28T12:05:00.000Z''"

definition headerOnlyCsv :: string where
  "headerOnlyCsv = ''code,title,cost,alias''"

definition productCsv :: string where
  "productCsv =
     ''code,title,cost,alias'' @ [CHR 0x0A] @ ''A1, Widget ,abc,'' @ [CHR 0x0A]
       @ '',Gadget,12,Gizmo'' @ [CHR 0x0A] @ ''B2,,5,Gizmo''"





definition exampleRequest :: request_body where
  "exampleRequest = \<lparr>config = productConfigJson, sourceFile = JStr productCsv\<rparr>"

definition emptyRequest :: request_body where
  "emptyRequest = \<lparr>config = productConfigJson, sourceFile = JStr headerOnlyCsv\<rparr>"




section \<open>The loop over the field mappings\<close>













section \<open>Validation of the required target fields\<close>

lemma required_distinct: "distinct (required (REPOSITORY_SCHEMA repo))"
  by (cases repo) simp_all

lemma missingRequired_set:
  "set (missingRequired validConfig) =
     set (required (REPOSITORY_SCHEMA (targetRepository validConfig))) - {''id''}
       - targetField ` set (fieldMappings validConfig)"
  by (auto simp: missingRequired_def requiredWithoutId_def mappedTargetFields_def)

lemma missingRequired_distinct: "distinct (missingRequired validConfig)"
  by (simp add: missingRequired_def requiredWithoutId_def required_distinct)

text \<open>
  Claim C1. For a configuration that passed the shape check and has
  \<^verbatim>\<open>options.validateRequired = true\<close>, \<^verbatim>\<open>missingRequired\<close> is the set of required fields of the
  target schema, without the identifier field \<^verbatim>\<open>id\<close>, minus the target fields of
  \<^verbatim>\<open>fieldMappings\<close>. When it is not empty the handler answers \<^verbatim>\<open>valid: false\<close> with one error per
  missing field, each with path \<^verbatim>\<open>fieldMappings\<close> and a message naming the field; when every
  required field other than \<^verbatim>\<open>id\<close> is mapped the handler goes on to the import. In the order
  variant the exempt identifier is \<^verbatim>\<open>orderId\<close>, the only required field, so the same check
  always passes there.
\<close>

theorem required_fields_coverage:
  assumes "validateRequired (options validConfig)"
  shows "set (missingRequired validConfig) =
           set (required (REPOSITORY_SCHEMA (targetRepository validConfig))) - {''id''}
             - targetField ` set (fieldMappings validConfig) \<and>
         (missingRequired validConfig \<noteq> [] \<longrightarrow>
            executeValid rt stamp validConfig sourceFileText =
              JsonBody \<lparr>valid = False, body_message = None,
                         body_errors =
                           Some (map (\<lambda>f. \<lparr>path = ''fieldMappings'',
                                            message = ''Missing required target field: ''
                                                        @ quote f\<rparr>)
                                     (missingRequired validConfig)),
                         summary = None, records = None\<rparr>) \<and>
         length (missingRequired validConfig) =
           card (set (required (REPOSITORY_SCHEMA (targetRepository validConfig))) - {''id''}
                   - targetField ` set (fieldMappings validConfig)) \<and>
         ((\<forall>f \<in> set (required (REPOSITORY_SCHEMA (targetRepository validConfig))).
              f \<noteq> ''id'' \<longrightarrow> f \<in> targetField ` set (fieldMappings validConfig)) \<longrightarrow>
            executeValid rt stamp validConfig sourceFileText =
              runImport rt stamp validConfig sourceFileText) \<and>
         orderMissingRequired (fieldMappings validConfig) =
           filter (\<lambda>f. f \<notin> targetField ` set (fieldMappings validConfig))
             (filter (\<lambda>f. f \<noteq> ''orderId'') (required TARGET_ORDER_SCHEMA)) \<and>
         orderRequiredCheck (fieldMappings validConfig) (options validConfig) = None"
proof -
  have len: "length (missingRequired validConfig) = card (set (missingRequired validConfig))"
    using missingRequired_distinct by (simp add: distinct_card)
  have fail: "executeValid rt stamp validConfig sourceFileText =
              JsonBody \<lparr>valid = False, body_message = None,
                         body_errors =
                           Some (map (\<lambda>f. \<lparr>path = ''fieldMappings'',
                                            message = ''Missing required target field: ''
                                                        @ quote f\<rparr>)
                                     (missingRequired validConfig)),
                         summary = None, records = None\<rparr>"
    if "missingRequired validConfig \<noteq> []"
  proof -
    have "missingFieldError =
          (\<lambda>f. \<lparr>path = ''fieldMappings'',
                 message = ''Missing required target field: '' @ quote f\<rparr>)"
      by (rule ext) (simp add: missingFieldError_def)
    then show ?thesis
      using that assms by (simp add: executeValid_def invalidBody_def)
  qed
  have pass: "executeValid rt stamp validConfig sourceFileText =
              runImport rt stamp validConfig sourceFileText"
    if "\<forall>f \<in> set (required (REPOSITORY_SCHEMA (targetRepository validConfig))).
              f \<noteq> ''id'' \<longrightarrow> f \<in> targetField ` set (fieldMappings validConfig)"
  proof -
    have "set (missingRequired validConfig) = {}"
      unfolding missingRequired_set using that by auto
    then show ?thesis by (simp add: executeValid_def)
  qed
  have ord: "orderMissingRequired (fieldMappings validConfig) = []"
    by (simp add: orderMissingRequired_def TARGET_ORDER_SCHEMA_def)
  show ?thesis
    using fail pass len ord
    by (simp add: missingRequired_set orderRequiredCheck_def TARGET_ORDER_SCHEMA_def)
qed

theorem required_fields_coverage_witness:
  "validateRequired (options incompleteConfig) \<and>
   missingRequired incompleteConfig = [''sku'', ''price''] \<and>
   executeValid exampleRuntime exampleStamp incompleteConfig productCsv =
     JsonBody \<lparr>valid = False, body_message = None,
                body_errors =
                  Some [\<lparr>path = ''fieldMappings'',
                         message = ''Missing required target field: '' @ quote ''sku''\<rparr>,
                        \<lparr>path = ''fieldMappings'',
                         message = ''Missing required target field: '' @ quote ''price''\<rparr>],
                summary = None, records = None\<rparr> \<and>
   validateRequired (options productConfig) \<and>
   missingRequired productConfig = [] \<and>
   executeValid exampleRuntime exampleStamp productConfig productCsv =
     runImport exampleRuntime exampleStamp productConfig productCsv"
proof -
  have v1: "validateRequired (options incompleteConfig)"
    by (simp add: incompleteConfig_def productConfig_def)
  have m1: "missingRequired incompleteConfig = [''sku'', ''price'']"
    by code_simp
  have v2: "validateRequired (options productConfig)"
    by (simp add: productConfig_def)
  have m2: "missingRequired productConfig = []"
    by code_simp
  have all2: "\<forall>f \<in> set (required (REPOSITORY_SCHEMA (targetRepository productConfig))).
                f \<noteq> ''id'' \<longrightarrow> f \<in> targetField ` set (fieldMappings productConfig)"
    by (simp add: productConfig_def skuMapping_def titleMapping_def costMapping_def
          aliasMapping_def)
  from required_fields_coverage [OF v1, of exampleRuntime exampleStamp productCsv] m1
  have r1: "executeValid exampleRuntime exampleStamp incompleteConfig productCsv =
     JsonBody \<lparr>valid = False, body_message = None,
                body_errors =
                  Some [\<lparr>path = ''fieldMappings'',
                         message = ''Missing required target field: '' @ quote ''sku''\<rparr>,
                        \<lparr>path = ''fieldMappings'',
                         message = ''Missing required target field: '' @ quote ''price''\<rparr>],
                summary = None, records = None\<rparr>"
    by simp
  from required_fields_coverage [OF v2, of exampleRuntime exampleStamp productCsv] all2
  have r2: "executeValid exampleRuntime exampleStamp productConfig productCsv =
     runImport exampleRuntime exampleStamp productConfig productCsv"
    by blast
  show ?thesis
    using v1 m1 r1 v2 m2 r2 by simp
qed

section \<open>Parsing a JSON source\<close>

lemma scanKeys_none:
  assumes "\<forall>(k, v) \<in> set kvs. \<not> isArray v"
  shows "scanKeys (JObj kvs) keys = Inr [JObj kvs]"
proof (induction keys)
  case Nil
  show ?case by simp
next
  case (Cons key keys)
  have "\<not> isArray (getMember (JObj kvs) key)"
    using assms by (auto split: option.splits dest: map_of_SomeD)
  then show ?case
    using Cons.IH by (cases "getMember (JObj kvs) key") (simp_all add: getProp_def)
qed

lemma scanKeys_skip:
  assumes "\<forall>key \<in> set ks1. \<not> isArray (getMember (JObj kvs) key)"
  shows "scanKeys (JObj kvs) (ks1 @ ks2) = scanKeys (JObj kvs) ks2"
  using assms
proof (induction ks1)
  case Nil
  show ?case by simp
next
  case (Cons key ks1)
  then have "\<not> isArray (getMember (JObj kvs) key)" by simp
  then show ?case
    using Cons by (cases "getMember (JObj kvs) key") (simp_all add: getProp_def)
qed

lemma scanKeys_first:
  assumes "kvs = pre @ (k, JArr xs) # post" and "distinct (map fst kvs)"
    and "\<forall>(k', v) \<in> set pre. \<not> isArray v"
  shows "scanKeys (JObj kvs) (map fst kvs) = Inr xs"
proof -
  have notin: "k \<notin> fst ` set pre"
    using assms(1,2) by auto
  have pre_lookup: "\<not> isArray (getMember (JObj kvs) key)" if "key \<in> set (map fst pre)" for key
  proof -
    from that obtain v where "map_of pre key = Some v"
      by (metis map_of_eq_None_iff not_None_eq set_map)
    moreover then have "(key, v) \<in> set pre" by (rule map_of_SomeD)
    ultimately show ?thesis
      using assms(1,3) by (auto simp: map_add_def)
  qed
  have "map_of pre k = None"
    using notin by (simp add: map_of_eq_None_iff)
  then have here: "getMember (JObj kvs) k = JArr xs"
    using assms(1) by (simp add: map_add_def)
  have "scanKeys (JObj kvs) (map fst kvs) =
        scanKeys (JObj kvs) (map fst pre @ (k # map fst post))"
    using assms(1) by simp
  also have "\<dots> = scanKeys (JObj kvs) (k # map fst post)"
    using pre_lookup by (intro scanKeys_skip) blast
  also have "\<dots> = Inr xs"
    using here by (simp add: getProp_def)
  finally show ?thesis .
qed

text \<open>
  Claim C7. When the source text parses to an object, parsing with source type \<^verbatim>\<open>json\<close> goes
  through the object's own keys in enumeration order and returns the array held by the first
  key that holds one; when no key holds an array it returns the one-element sequence of the
  parsed object. The text \<^verbatim>\<open>{"meta":{}, "items":[{"id":1}]}\<close> gives the one-element sequence
  of the object with \<^verbatim>\<open>id\<close> 1.
\<close>

theorem parseJSON_object_wrapper:
  assumes "JSON_parse rt jsonString = Inr (JObj kvs)" and "distinct (map fst kvs)"
  shows "(\<forall>pre k xs post.
            kvs = pre @ (k, JArr xs) # post \<and> (\<forall>(k', v) \<in> set pre. \<not> isArray v) \<longrightarrow>
            parseSourceFile rt jsonString (sourceTypeName Json) = Inr xs) \<and>
         ((\<forall>(k, v) \<in> set kvs. \<not> isArray v) \<longrightarrow>
            parseSourceFile rt jsonString (sourceTypeName Json) = Inr [JObj kvs]) \<and>
         (kvs = [(''meta'', JObj []), (''items'', JArr [JObj [(''id'', JNum (Fin 1))]])] \<longrightarrow>
            parseSourceFile rt jsonString (sourceTypeName Json) =
              Inr [JObj [(''id'', JNum (Fin 1))]])"
proof -
  have eq: "parseSourceFile rt jsonString (sourceTypeName Json) =
            scanKeys (JObj kvs) (map fst kvs)"
    using assms(1) by (simp add: parseSourceFile_def parseJSON_def)
  have a: "parseSourceFile rt jsonString (sourceTypeName Json) = Inr xs"
    if "kvs = pre @ (k, JArr xs) # post" "\<forall>(k', v) \<in> set pre. \<not> isArray v" for pre k xs post
    unfolding eq using that(1) assms(2) that(2) by (rule scanKeys_first)
  have b: "parseSourceFile rt jsonString (sourceTypeName Json) = Inr [JObj kvs]"
    if "\<forall>(k, v) \<in> set kvs. \<not> isArray v"
    unfolding eq using that by (rule scanKeys_none)
  have c: "parseSourceFile rt jsonString (sourceTypeName Json) =
             Inr [JObj [(''id'', JNum (Fin 1))]]"
    if "kvs = [(''meta'', JObj []), (''items'', JArr [JObj [(''id'', JNum (Fin 1))]])]"
    using a [of "[(''meta'', JObj [])]" "''items''" "[JObj [(''id'', JNum (Fin 1))]]" "[]"] that
    by simp
  show ?thesis
    using a b c by blast
qed

theorem parseJSON_object_wrapper_witness:
  "JSON_parse exampleRuntime wrapperText =
     Inr (JObj [(''meta'', JObj []), (''items'', JArr [JObj [(''id'', JNum (Fin 1))]])]) \<and>
   distinct (map fst [(''meta'', JObj []), (''items'', JArr [JObj [(''id'', JNum (Fin 1))]])]) \<and>
   parseSourceFile exampleRuntime wrapperText (sourceTypeName Json) =
     Inr [JObj [(''id'', JNum (Fin 1))]] \<and>
   JSON_parse exampleRuntime singleText = Inr (JObj [(''id'', JNum (Fin 7))]) \<and>
   parseSourceFile exampleRuntime singleText (sourceTypeName Json) =
     Inr [JObj [(''id'', JNum (Fin 7))]]"
proof -
  have p1: "JSON_parse exampleRuntime wrapperText =
     Inr (JObj [(''meta'', JObj []), (''items'', JArr [JObj [(''id'', JNum (Fin 1))]])])"
    by (simp add: exampleRuntime_def exampleParse_def wrapperObject_def)
  have d1: "distinct (map fst [(''meta'', JObj []),
                               (''items'', JArr [JObj [(''id'', JNum (Fin 1))]])])"
    by simp
  have ne: "singleText \<noteq> wrapperText"
    by (simp add: singleText_def wrapperText_def quote_def)
  have p2: "JSON_parse exampleRuntime singleText = Inr (JObj [(''id'', JNum (Fin 7))])"
    using ne by (simp add: exampleRuntime_def exampleParse_def)
  have d2: "distinct (map fst [(''id'', JNum (Fin 7))])"
    by simp
  from parseJSON_object_wrapper [OF p1 d1]
  have r1: "parseSourceFile exampleRuntime wrapperText (sourceTypeName Json) =
     Inr [JObj [(''id'', JNum (Fin 1))]]"
    by blast
  from parseJSON_object_wrapper [OF p2 d2]
  have r2: "parseSourceFile exampleRuntime singleText (sourceTypeName Json) =
     Inr [JObj [(''id'', JNum (Fin 7))]]"
    by simp
  show ?thesis
    using p1 d1 r1 p2 r2 by simp
qed

section \<open>The standardized record\<close>






section \<open>The number transform\<close>





section \<open>Several entries for one target field\<close>







section \<open>The response of the handler\<close>

text \<open>
  Claim C3 as stated fails: on a source that parses to no records the handler returns early
  with \<^verbatim>\<open>valid: true\<close>, a message and an empty \<^verbatim>\<open>records\<close> array, and the body has no summary at
  all, so there is no \<^verbatim>\<open>totalRecords\<close> to equal 0.
\<close>

theorem empty_source_counterexample:
  "safeParse exampleRuntime (config emptyRequest) = Inr productConfig \<and>
   missingRequired productConfig = [] \<and>
   parseSourceFile exampleRuntime headerOnlyCsv (sourceTypeName (sourceType productConfig)) =
     Inr [] \<and>
   summaryOf (executeConfig exampleRuntime exampleStamp emptyRequest) = None \<and>
   map_option totalRecords (summaryOf (executeConfig exampleRuntime exampleStamp emptyRequest))
     \<noteq> Some 0"
  by code_simp

text \<open>
  Claim C3, amended. For every configuration that passes validation and every source that
  parses to the empty sequence, the handler answers \<^verbatim>\<open>valid: true\<close> (not an error) with the
  message \<^verbatim>\<open>Source file parsed but contains no records.\<close> and an empty \<^verbatim>\<open>records\<close> sequence;
  the body carries no summary.
\<close>

theorem empty_source_response:
  assumes "\<not> (validateRequired (options validConfig) \<and> missingRequired validConfig \<noteq> [])"
    and "parseSourceFile rt sourceFileText (sourceTypeName (sourceType validConfig)) = Inr []"
  shows "executeValid rt stamp validConfig sourceFileText =
           JsonBody \<lparr>valid = True,
                      body_message = Some ''Source file parsed but contains no records.'',
                      body_errors = None, summary = None, records = Some []\<rparr> \<and>
         (truthy c \<and> sourceFileText \<noteq> [] \<and> safeParse rt c = Inr validConfig \<longrightarrow>
            executeConfig rt stamp \<lparr>config = c, sourceFile = JStr sourceFileText\<rparr> =
              JsonBody \<lparr>valid = True,
                         body_message = Some ''Source file parsed but contains no records.'',
                         body_errors = None, summary = None, records = Some []\<rparr>)"
  using assms by (auto simp: executeValid_def runImport_def executeConfig_def)

theorem empty_source_response_witness:
  "\<not> (validateRequired (options productConfig) \<and> missingRequired productConfig \<noteq> []) \<and>
   parseSourceFile exampleRuntime headerOnlyCsv (sourceTypeName (sourceType productConfig)) =
     Inr [] \<and>
   truthy productConfigJson \<and> headerOnlyCsv \<noteq> [] \<and>
   safeParse exampleRuntime productConfigJson = Inr productConfig \<and>
   executeValid exampleRuntime exampleStamp productConfig headerOnlyCsv =
     JsonBody \<lparr>valid = True,
                body_message = Some ''Source file parsed but contains no records.'',
                body_errors = None, summary = None, records = Some []\<rparr> \<and>
   executeConfig exampleRuntime exampleStamp emptyRequest =
     JsonBody \<lparr>valid = True,
                body_message = Some ''Source file parsed but contains no records.'',
                body_errors = None, summary = None, records = Some []\<rparr>"
proof -
  have m: "missingRequired productConfig = []"
    by code_simp
  then have v: "\<not> (validateRequired (options productConfig) \<and> missingRequired productConfig \<noteq> [])"
    by simp
  have p: "parseSourceFile exampleRuntime headerOnlyCsv
             (sourceTypeName (sourceType productConfig)) = Inr []"
    by code_simp
  have t: "truthy productConfigJson"
    by (simp add: productConfigJson_def)
  have h: "headerOnlyCsv \<noteq> []"
    by (simp add: headerOnlyCsv_def)
  have s: "safeParse exampleRuntime productConfigJson = Inr productConfig"
    by (simp add: exampleRuntime_def)
  from empty_source_response [OF v p, of exampleStamp productConfigJson] t h s
  show ?thesis
    using v p by (simp add: emptyRequest_def)
qed

lemma importRecord_stamp:
  "map_sum id eraseRecordStamp (importRecord rt validConfig s1 index sourceRecord) =
   map_sum id eraseRecordStamp (importRecord rt validConfig s2 index sourceRecord)"
  by (simp add: importRecord_def eraseRecordStamp_def Let_def split: sum.splits prod.splits)

lemma importRecords_stamp:
  "map_sum id (map eraseRecordStamp) (importRecords rt validConfig s1 index rs) =
   map_sum id (map eraseRecordStamp) (importRecords rt validConfig s2 index rs)"
proof (induction rs arbitrary: index)
  case Nil
  show ?case by simp
next
  case (Cons r rs)
  from importRecord_stamp [of rt validConfig s1 index r s2] Cons.IH [of "Suc index"]
  show ?case
    by (auto split: sum.splits)
qed

lemma success_erase: "success (meta (eraseRecordStamp r)) = success (meta r)"
  by (simp add: eraseRecordStamp_def)

lemma successCount_erase:
  "length (filter (\<lambda>r. success (meta r)) (map eraseRecordStamp rs)) =
   length (filter (\<lambda>r. success (meta r)) rs)"
  by (induction rs) (simp_all add: success_erase)

lemma runImport_stamp:
  "eraseImportedAt (runImport rt s1 validConfig src) =
   eraseImportedAt (runImport rt s2 validConfig src)"
proof (cases "parseSourceFile rt src (sourceTypeName (sourceType validConfig))")
  case (Inl e)
  then show ?thesis by (simp add: runImport_def)
next
  case (Inr sourceRecords)
  show ?thesis
  proof (cases "sourceRecords = []")
    case True
    with Inr show ?thesis by (simp add: runImport_def)
  next
    case False
    from importRecords_stamp [of rt validConfig s1 0 sourceRecords s2]
    consider (failed) e where "importRecords rt validConfig s1 0 sourceRecords = Inl e"
        "importRecords rt validConfig s2 0 sourceRecords = Inl e"
      | (imported) rs1 rs2 where "importRecords rt validConfig s1 0 sourceRecords = Inr rs1"
        "importRecords rt validConfig s2 0 sourceRecords = Inr rs2"
        "map eraseRecordStamp rs1 = map eraseRecordStamp rs2"
      by (cases "importRecords rt validConfig s1 0 sourceRecords";
          cases "importRecords rt validConfig s2 0 sourceRecords") auto
    then show ?thesis
    proof cases
      case failed
      with Inr False show ?thesis by (simp add: runImport_def)
    next
      case imported
      have "length (filter (\<lambda>r. success (meta r)) rs1) =
            length (filter (\<lambda>r. success (meta r)) rs2)"
        using successCount_erase [of rs1] successCount_erase [of rs2] imported(3) by simp
      with Inr False imported show ?thesis by (simp add: runImport_def Let_def)
    qed
  qed
qed

text \<open>
  Claim C8. Running the handler twice on the same request, with the same built-ins, gives
  the same response except for \<^verbatim>\<open>importedAt\<close>: with the clock reading taken as a parameter,
  two runs at different times agree once every \<^verbatim>\<open>importedAt\<close> is blanked, in the records and in
  the summary.
\<close>

theorem import_independent_of_stamp:
  "eraseImportedAt (executeConfig rt stamp1 body) = eraseImportedAt (executeConfig rt stamp2 body)"
  using runImport_stamp [of rt stamp1 _ _ stamp2]
  by (simp add: executeConfig_def executeValid_def split: sum.splits)

theorem import_independent_of_stamp_witness:
  "eraseImportedAt (executeConfig exampleRuntime exampleStamp exampleRequest) =
     eraseImportedAt (executeConfig exampleRuntime laterStamp exampleRequest) \<and>
   executeConfig exampleRuntime exampleStamp exampleRequest \<noteq>
     executeConfig exampleRuntime laterStamp exampleRequest \<and>
   map_option totalRecords (summaryOf (executeConfig exampleRuntime exampleStamp exampleRequest))
     = Some 3"
proof -
  have d: "executeConfig exampleRuntime exampleStamp exampleRequest \<noteq>
           executeConfig exampleRuntime laterStamp exampleRequest"
    by code_simp
  have n: "map_option totalRecords
             (summaryOf (executeConfig exampleRuntime exampleStamp exampleRequest)) = Some 3"
    by code_simp
  from import_independent_of_stamp [of exampleRuntime exampleStamp exampleRequest laterStamp]
  show ?thesis
    using d n by simp
qed

end
